theory Spec2Isabelle
  imports Complex_Main "HOL-Library.AList" "HOL-Library.Multiset"
begin

section \<open>Python values, exceptions and results\<close>

text \<open>
  The values that travel through \<^verbatim>\<open>tools_core.py\<close>: JSON-like Python values.
  Python floats are never computed on by the functions modelled here (they are handed to
  pandas and echoed back), so their representation is the type parameter \<open>'f\<close>.
  A \<open>PPeriod\<close> is a pandas Period: its ordinal and its frequency string.
\<close>

datatype 'f pyval =
    PNone
  | PBool bool
  | PInt int
  | PFloat 'f
  | PStr string
  | PPeriod int string
  | PList "'f pyval list"
  | PDict "('f pyval \<times> 'f pyval) list"

text \<open>
  A returned dictionary \<^verbatim>\<open>{"ok": ..., ...}\<close>: string keys in insertion order.
\<close>

type_synonym 'f pydict = "(string \<times> 'f pyval) list"

text \<open>
  A raised exception (a subclass of \<^verbatim>\<open>Exception\<close>): \<^verbatim>\<open>type(e).__name__\<close> and
  \<^verbatim>\<open>str(e)\<close>. What a call does is a value of \<open>exn + 'a\<close>: \<open>Inl e\<close> when \<open>e\<close>
  propagates out of the call, \<open>Inr x\<close> when the call returns \<open>x\<close>.
\<close>

record exn =
  exn_class :: string
  exn_msg :: string

type_synonym 'f outcome = "exn + 'f pydict"

definition as_pyval :: "'f pydict \<Rightarrow> 'f pyval" where
  "as_pyval d = PDict (map (\<lambda>(k, v). (PStr k, v)) d)"

definition failure :: "string \<Rightarrow> 'f pydict" where
  "failure msg = [(''ok'', PBool False), (''error'', PStr msg)]"

section \<open>The table\<close>

text \<open>
  A pandas DataFrame as far as the code looks into it: its row count and its named
  columns, in order. A column is a datetime64 series (\<open>None\<close> is NaT, the values are
  timestamps), an int64 series, or a series of any other dtype, whose cells are Python
  values. Column names are taken to be unique, as \<^verbatim>\<open>pd.read_csv\<close> makes them.
\<close>

datatype 'f series =
    Datetime64 "int option list"
  | Int64 "int list"
  | Other "'f pyval list"

record 'f dataframe =
  df_len :: nat
  df_columns :: "(string \<times> 'f series) list"

text \<open>
  \<^verbatim>\<open>repr\<close> of a Python string, for ASCII text: single quotes, unless the string has a
  single quote and no double quote; the quote in use and the backslash are escaped, tab,
  newline and carriage return are written \<^verbatim>\<open>\t\<close>, \<^verbatim>\<open>\n\<close>, \<^verbatim>\<open>\r\<close>, and the other control
  characters as \<^verbatim>\<open>\xhh\<close>. Characters beyond ASCII are taken to be printable and are kept.
\<close>

definition hex_digit :: "nat \<Rightarrow> char" where
  "hex_digit n = ''0123456789abcdef'' ! n"

definition repr_char :: "char \<Rightarrow> char \<Rightarrow> string" where
  "repr_char q c =
     (if c = q \<or> c = CHR 0x5C then [CHR 0x5C, c]
      else if c = CHR 0x09 then [CHR 0x5C, CHR ''t'']
      else if c = CHR 0x0A then [CHR 0x5C, CHR ''n'']
      else if c = CHR 0x0D then [CHR 0x5C, CHR ''r'']
      else if (of_char c :: nat) < 32 \<or> c = CHR 0x7F
        then [CHR 0x5C, CHR ''x'', hex_digit (of_char c div 16), hex_digit (of_char c mod 16)]
      else [c])"

definition py_repr :: "string \<Rightarrow> string" where
  "py_repr s =
     (let q = (if CHR 0x27 \<in> set s \<and> CHR 0x22 \<notin> set s then CHR 0x22 else CHR 0x27)
      in q # concat (map (repr_char q) s) @ [q])"

text \<open>\<^verbatim>\<open>KeyError(k)\<close>: its \<^verbatim>\<open>str\<close> is the \<^verbatim>\<open>repr\<close> of the key.\<close>

definition KeyError :: "string \<Rightarrow> exn" where
  "KeyError k = \<lparr>exn_class = ''KeyError'', exn_msg = py_repr k\<rparr>"

text \<open>\<^verbatim>\<open>df[column]\<close> for a single label: a missing label raises KeyError.\<close>

definition getitem :: "'f dataframe \<Rightarrow> string \<Rightarrow> exn + 'f series" where
  "getitem d c = (case map_of (df_columns d) c of None \<Rightarrow> Inl (KeyError c) | Some s \<Rightarrow> Inr s)"

section \<open>The global runtime context\<close>

text \<open>\<^verbatim>\<open>STATE = {"df": None, "name": None, "schema": None}\<close>\<close>

type_synonym schema_t = "(string \<times> string list) list"

record 'f state =
  df :: "'f dataframe option"
  name :: "string option"
  schema :: "schema_t option"

definition STATE :: "'f state" where
  "STATE = \<lparr>df = None, name = None, schema = None\<rparr>"

section \<open>The libraries the tools call\<close>

text \<open>
  pandas, plotly and pathlib are not part of the repository. Each library call of
  \<^verbatim>\<open>tools_core.py\<close> is a field of the environment: it returns a value or raises.
  A rendering call (\<^verbatim>\<open>px.bar\<close>, \<^verbatim>\<open>px.scatter\<close>, \<^verbatim>\<open>px.histogram\<close>, \<^verbatim>\<open>px.line\<close>,
  each followed by \<^verbatim>\<open>fig.show()\<close>) returns \<open>None\<close> when it does not raise.
  \<^item> \<open>path_exists\<close>: \<^verbatim>\<open>Path(p).exists()\<close>; \<open>path_name\<close>: \<^verbatim>\<open>Path(p).name\<close>;
  \<^item> \<open>read_csv\<close>: \<^verbatim>\<open>pd.read_csv(path)\<close>;
  \<^item> \<open>describe\<close>: \<^verbatim>\<open>df.describe().T.to_dict()\<close> when the flag is true,
    \<^verbatim>\<open>df.describe(include="all").T.to_dict()\<close> otherwise;
  \<^item> \<open>head_records\<close>: \<^verbatim>\<open>df.head(n).to_dict(orient="records")\<close>;
  \<^item> \<open>value_counts_head\<close>: \<^verbatim>\<open>s.astype(str).value_counts(dropna=True).head(top_n).to_dict()\<close>;
  \<^item> \<open>corr\<close>: \<^verbatim>\<open>df.corr(numeric_only=True, method=method).to_dict()\<close> without columns,
    \<^verbatim>\<open>df[columns].corr(method=method).to_dict()\<close> with them;
  \<^item> \<open>zscore_outliers\<close>: lines 153 to 156 of \<^verbatim>\<open>outliers\<close>, the floating-point z-score
    computation and the row indices it selects;
  \<^item> \<open>missing_fractions\<close>: lines 168 and 169 of \<^verbatim>\<open>missing\<close>, then \<^verbatim>\<open>to_dict()\<close>;
  \<^item> \<open>to_period\<close>: \<^verbatim>\<open>.dt.to_period(freq)\<close> on the timestamps left by \<^verbatim>\<open>dropna()\<close>,
    giving the frequency name that the periods carry and their ordinals;
  \<^item> \<open>to_numeric_int\<close>: \<^verbatim>\<open>pd.to_numeric(s, errors="coerce").dropna().astype(int)\<close> on a
    column that is neither datetime64 nor int64.
\<close>

record 'f env =
  path_exists :: "string \<Rightarrow> bool"
  path_name :: "string \<Rightarrow> string"
  read_csv :: "string \<Rightarrow> exn + 'f dataframe"
  describe :: "'f dataframe \<Rightarrow> bool \<Rightarrow> exn + 'f pyval"
  head_records :: "'f dataframe \<Rightarrow> int \<Rightarrow> exn + 'f pyval"
  value_counts_head :: "'f series \<Rightarrow> int \<Rightarrow> exn + ('f pyval \<times> 'f pyval) list"
  bar_show :: "'f pyval list \<Rightarrow> 'f pyval list \<Rightarrow> int \<Rightarrow> string \<Rightarrow> exn option"
  corr :: "'f dataframe \<Rightarrow> string list option \<Rightarrow> string \<Rightarrow> exn + 'f pyval"
  scatter_show :: "'f dataframe \<Rightarrow> string \<Rightarrow> string \<Rightarrow> exn option"
  zscore_outliers :: "'f dataframe \<Rightarrow> string list \<Rightarrow> 'f \<Rightarrow> exn + int list"
  missing_fractions :: "'f dataframe \<Rightarrow> 'f \<Rightarrow> exn + 'f pyval"
  histogram_show :: "'f dataframe \<Rightarrow> string \<Rightarrow> int \<Rightarrow> exn option"
  to_period :: "int list \<Rightarrow> string \<Rightarrow> exn + string \<times> int list"
  to_numeric_int :: "'f pyval list \<Rightarrow> exn + int list"
  line_show :: "'f pyval list \<Rightarrow> 'f pyval list \<Rightarrow> string \<Rightarrow> string \<Rightarrow> exn option"

section \<open>Data I/O\<close>

text \<open>
  \<^verbatim>\<open>load_data(path: Optional[str] = None)\<close>. The two assignments to \<^verbatim>\<open>STATE\<close> come
  after \<^verbatim>\<open>pd.read_csv\<close> has returned; nothing after them raises for a string path.
\<close>

definition load_from :: "'f env \<Rightarrow> 'f state \<Rightarrow> string \<Rightarrow> 'f state \<times> 'f outcome" where
  "load_from env st p =
     (case read_csv env p of
        Inl e \<Rightarrow> (st, Inr (failure (''load_failed:'' @ exn_class e @ '':'' @ exn_msg e)))
      | Inr d \<Rightarrow>
          (let st' = st\<lparr>df := Some d, name := Some (path_name env p)\<rparr>
           in (st', Inr [(''ok'', PBool True),
                         (''dataset'', PStr (path_name env p)),
                         (''rows'', PInt (int (df_len d))),
                         (''cols'', PInt (int (length (df_columns d)))),
                         (''columns'', PList (map (\<lambda>c. PStr (fst c)) (df_columns d)))])))"

definition load_data :: "'f env \<Rightarrow> 'f state \<Rightarrow> string option \<Rightarrow> 'f state \<times> 'f outcome" where
  "load_data env st path =
     (case path of
        None \<Rightarrow>
          (if \<not> path_exists env ''dataset.csv''
           then (st, Inr (failure ''no_path_provided_and_dataset.csv_not_found''))
           else load_from env st ''dataset.csv'')
      | Some p \<Rightarrow> load_from env st p)"

definition schema_pyval :: "schema_t \<Rightarrow> 'f pyval" where
  "schema_pyval s = PDict (map (\<lambda>(k, cols). (PStr k, PList (map PStr cols))) s)"

definition set_schema :: "'f state \<Rightarrow> schema_t \<Rightarrow> 'f state \<times> 'f outcome" where
  "set_schema st s =
     (st\<lparr>schema := Some s\<rparr>, Inr [(''ok'', PBool True), (''keys'', PList (map (\<lambda>kv. PStr (fst kv)) s))])"

definition get_schema :: "'f state \<Rightarrow> 'f state \<times> 'f outcome" where
  "get_schema st =
     (st, Inr [(''ok'', PBool (schema st \<noteq> None)),
               (''schema'', (case schema st of None \<Rightarrow> PNone | Some s \<Rightarrow> schema_pyval s))])"

section \<open>Summaries\<close>

definition summary :: "'f env \<Rightarrow> 'f state \<Rightarrow> bool \<Rightarrow> 'f state \<times> 'f outcome" where
  "summary env st numeric_only =
     (case df st of
        None \<Rightarrow> (st, Inr (failure ''no_dataset_loaded''))
      | Some d \<Rightarrow>
          (case describe env d numeric_only of
             Inl e \<Rightarrow> (st, Inr (failure (''summary_failed:'' @ exn_class e @ '':'' @ exn_msg e)))
           | Inr desc \<Rightarrow>
               (st, Inr [(''ok'', PBool True),
                         (''rows'', PInt (int (df_len d))),
                         (''cols'', PInt (int (length (df_columns d)))),
                         (''describe'', desc)])))"

text \<open>\<^verbatim>\<open>head\<close> has no \<^verbatim>\<open>try\<close>: what pandas raises propagates.\<close>

definition head :: "'f env \<Rightarrow> 'f state \<Rightarrow> int \<Rightarrow> 'f state \<times> 'f outcome" where
  "head env st n =
     (case df st of
        None \<Rightarrow> (st, Inr (failure ''no_dataset_loaded''))
      | Some d \<Rightarrow>
          (case head_records env d n of
             Inl e \<Rightarrow> (st, Inl e)
           | Inr rows \<Rightarrow> (st, Inr [(''ok'', PBool True), (''rows'', rows)])))"

section \<open>Categorical\<close>

text \<open>
  One pass of the loop of \<^verbatim>\<open>top_categories\<close>: the whole body is inside \<^verbatim>\<open>try\<close>, the
  counts are stored under the column before the bar chart is drawn, and the handler
  overwrites the entry with \<^verbatim>\<open>f"error:{e}"\<close>.
\<close>

definition top_categories_item ::
  "'f env \<Rightarrow> 'f dataframe \<Rightarrow> int \<Rightarrow> string \<Rightarrow> 'f pydict \<Rightarrow> 'f pydict" where
  "top_categories_item env d top_n c out =
     (case getitem d c of
        Inl e \<Rightarrow> AList.update c (PStr (''error:'' @ exn_msg e)) out
      | Inr s \<Rightarrow>
          (case value_counts_head env s top_n of
             Inl e \<Rightarrow> AList.update c (PStr (''error:'' @ exn_msg e)) out
           | Inr counts \<Rightarrow>
               (let out1 = AList.update c (PDict counts) out
                in case bar_show env (map fst counts) (map snd counts) top_n c of
                     Some e \<Rightarrow> AList.update c (PStr (''error:'' @ exn_msg e)) out1
                   | None \<Rightarrow> out1)))"

fun top_categories_loop ::
  "'f env \<Rightarrow> 'f dataframe \<Rightarrow> int \<Rightarrow> string list \<Rightarrow> 'f pydict \<Rightarrow> 'f pydict" where
  "top_categories_loop env d top_n [] out = out"
| "top_categories_loop env d top_n (c # cs) out =
     top_categories_loop env d top_n cs (top_categories_item env d top_n c out)"

definition top_categories ::
  "'f env \<Rightarrow> 'f state \<Rightarrow> string list \<Rightarrow> int \<Rightarrow> 'f state \<times> 'f outcome" where
  "top_categories env st columns top_n =
     (case df st of
        None \<Rightarrow> (st, Inr (failure ''no_dataset_loaded''))
      | Some d \<Rightarrow>
          (st, Inr [(''ok'', PBool True),
                    (''top_categories'', as_pyval (top_categories_loop env d top_n columns []))]))"

section \<open>Correlations and scatter plots\<close>

definition correlations ::
  "'f env \<Rightarrow> 'f state \<Rightarrow> string list option \<Rightarrow> string \<Rightarrow> 'f state \<times> 'f outcome" where
  "correlations env st columns method =
     (case df st of
        None \<Rightarrow> (st, Inr (failure ''no_dataset_loaded''))
      | Some d \<Rightarrow>
          (case corr env d columns method of
             Inl e \<Rightarrow> (st, Inr (failure (''correlation_failed:'' @ exn_msg e)))
           | Inr c \<Rightarrow> (st, Inr [(''ok'', PBool True), (''method'', PStr method), (''corr'', c)])))"

definition scatter_pairs_item :: "'f env \<Rightarrow> 'f dataframe \<Rightarrow> string \<times> string \<Rightarrow> string" where
  "scatter_pairs_item env d p =
     (case p of (x, y) \<Rightarrow>
        (case scatter_show env d x y of
           None \<Rightarrow> x @ ''_vs_'' @ y
         | Some e \<Rightarrow> x @ ''_vs_'' @ y @ ''_error:'' @ exn_msg e))"

fun scatter_pairs_loop ::
  "'f env \<Rightarrow> 'f dataframe \<Rightarrow> (string \<times> string) list \<Rightarrow> string list \<Rightarrow> string list" where
  "scatter_pairs_loop env d [] rendered = rendered"
| "scatter_pairs_loop env d (p # ps) rendered =
     scatter_pairs_loop env d ps (rendered @ [scatter_pairs_item env d p])"

definition scatter_pairs ::
  "'f env \<Rightarrow> 'f state \<Rightarrow> (string \<times> string) list \<Rightarrow> 'f state \<times> 'f outcome" where
  "scatter_pairs env st pairs =
     (case df st of
        None \<Rightarrow> (st, Inr (failure ''no_dataset_loaded''))
      | Some d \<Rightarrow>
          (st, Inr [(''ok'', PBool True),
                    (''pairs_rendered'', PList (map PStr (scatter_pairs_loop env d pairs [])))]))"

section \<open>Outliers and missing values\<close>

definition outliers ::
  "'f env \<Rightarrow> 'f state \<Rightarrow> string list \<Rightarrow> 'f \<Rightarrow> 'f state \<times> 'f outcome" where
  "outliers env st columns z =
     (case df st of
        None \<Rightarrow> (st, Inr (failure ''no_dataset_loaded''))
      | Some d \<Rightarrow>
          (case zscore_outliers env d columns z of
             Inl e \<Rightarrow> (st, Inr (failure (''outlier_failed:'' @ exn_msg e)))
           | Inr indices \<Rightarrow>
               (st, Inr [(''ok'', PBool True),
                         (''count'', PInt (int (length indices))),
                         (''indices'', PList (map PInt indices))])))"

text \<open>\<^verbatim>\<open>missing\<close> has no \<^verbatim>\<open>try\<close> either.\<close>

definition missing :: "'f env \<Rightarrow> 'f state \<Rightarrow> 'f \<Rightarrow> 'f state \<times> 'f outcome" where
  "missing env st threshold =
     (case df st of
        None \<Rightarrow> (st, Inr (failure ''no_dataset_loaded''))
      | Some d \<Rightarrow>
          (case missing_fractions env d threshold of
             Inl e \<Rightarrow> (st, Inl e)
           | Inr flagged \<Rightarrow>
               (st, Inr [(''ok'', PBool True),
                         (''threshold'', PFloat threshold),
                         (''missing'', flagged)])))"

section \<open>Distributions and XY plots\<close>

definition plot_hist :: "'f env \<Rightarrow> 'f state \<Rightarrow> string \<Rightarrow> int \<Rightarrow> 'f state \<times> 'f outcome" where
  "plot_hist env st column nbins =
     (case df st of
        None \<Rightarrow> (st, Inr (failure ''no_dataset_loaded''))
      | Some d \<Rightarrow>
          (case histogram_show env d column nbins of
             None \<Rightarrow> (st, Inr [(''ok'', PBool True)])
           | Some e \<Rightarrow> (st, Inr (failure (''plot_hist_failed:'' @ exn_msg e)))))"

definition plot_xy :: "'f env \<Rightarrow> 'f state \<Rightarrow> string \<Rightarrow> string \<Rightarrow> 'f state \<times> 'f outcome" where
  "plot_xy env st x y =
     (case df st of
        None \<Rightarrow> (st, Inr (failure ''no_dataset_loaded''))
      | Some d \<Rightarrow>
          (case scatter_show env d x y of
             None \<Rightarrow> (st, Inr [(''ok'', PBool True)])
           | Some e \<Rightarrow> (st, Inr (failure (''plot_xy_failed:'' @ exn_msg e)))))"

section \<open>Time trends\<close>

text \<open>\<^verbatim>\<open>Series.dropna()\<close> on a datetime64 column removes NaT.\<close>

fun dropna :: "int option list \<Rightarrow> int list" where
  "dropna [] = []"
| "dropna (None # xs) = dropna xs"
| "dropna (Some x # xs) = x # dropna xs"

text \<open>
  \<^verbatim>\<open>value_counts()\<close>: one entry per distinct value with its number of occurrences, most
  frequent first. \<^verbatim>\<open>sort_index()\<close> then orders the entries by their key, ascending, and
  \<^verbatim>\<open>to_dict()\<close> keeps that order.
\<close>

definition value_counts :: "int list \<Rightarrow> (int \<times> nat) list" where
  "value_counts xs =
     sort_key (\<lambda>kv. - int (snd kv)) (map (\<lambda>k. (k, count_list xs k)) (rev (remdups (rev xs))))"

definition sort_index :: "(int \<times> nat) list \<Rightarrow> (int \<times> nat) list" where
  "sort_index kvs = sort_key fst kvs"

definition to_dict :: "(int \<Rightarrow> 'f pyval) \<Rightarrow> (int \<times> nat) list \<Rightarrow> ('f pyval \<times> 'f pyval) list" where
  "to_dict key kvs = map (\<lambda>kv. (key (fst kv), PInt (int (snd kv)))) kvs"

text \<open>
  The body of the \<^verbatim>\<open>try\<close> of \<^verbatim>\<open>time_trend\<close>, on the column \<open>s\<close>. On an int64 column
  \<^verbatim>\<open>pd.to_numeric(s, errors="coerce").dropna().astype(int)\<close> is the column itself.
\<close>

definition year_trend :: "'f env \<Rightarrow> string \<Rightarrow> int list \<Rightarrow> exn + 'f pydict" where
  "year_trend env column ser =
     (let result = to_dict PInt (sort_index (value_counts ser))
      in case line_show env (map fst result) (map snd result) column (''Count by Year: '' @ column) of
           Some e \<Rightarrow> Inl e
         | None \<Rightarrow> Inr [(''ok'', PBool True), (''type'', PStr ''year-int''), (''trend'', PDict result)])"

definition time_trend_try :: "'f env \<Rightarrow> 'f series \<Rightarrow> string \<Rightarrow> string \<Rightarrow> exn + 'f pydict" where
  "time_trend_try env s column freq =
     (case s of
        Datetime64 ts \<Rightarrow>
          (case to_period env (dropna ts) freq of
             Inl e \<Rightarrow> Inl e
           | Inr (f, ps) \<Rightarrow>
               (let result = to_dict (\<lambda>k. PPeriod k f) (sort_index (value_counts ps))
                in case line_show env (map fst result) (map snd result) column
                          (''Count by '' @ freq @ '': '' @ column) of
                     Some e \<Rightarrow> Inl e
                   | None \<Rightarrow> Inr [(''ok'', PBool True), (''type'', PStr ''datetime''),
                                 (''trend'', PDict result)]))
      | Int64 xs \<Rightarrow> year_trend env column xs
      | Other vs \<Rightarrow>
          (case to_numeric_int env vs of
             Inl e \<Rightarrow> Inl e
           | Inr ser \<Rightarrow> year_trend env column ser))"

text \<open>\<^verbatim>\<open>s = df[column]\<close> stands before the \<^verbatim>\<open>try\<close>.\<close>

definition time_trend :: "'f env \<Rightarrow> 'f state \<Rightarrow> string \<Rightarrow> string \<Rightarrow> 'f state \<times> 'f outcome" where
  "time_trend env st column freq =
     (case df st of
        None \<Rightarrow> (st, Inr (failure ''no_dataset_loaded''))
      | Some d \<Rightarrow>
          (case getitem d column of
             Inl e \<Rightarrow> (st, Inl e)
           | Inr s \<Rightarrow>
               (case time_trend_try env s column freq of
                  Inl e \<Rightarrow> (st, Inr (failure (''time_trend_failed:'' @ exn_msg e)))
                | Inr r \<Rightarrow> (st, Inr r))))"

section \<open>The operations as one type\<close>

text \<open>
  A call of one of the thirteen functions of \<^verbatim>\<open>tools_core.py\<close> with its arguments, as
  the wrappers of \<^verbatim>\<open>server.py\<close> pass them on.
\<close>

datatype 'f operation =
    Load_data "string option"
  | Set_schema schema_t
  | Get_schema
  | Summary bool
  | Head int
  | Top_categories "string list" int
  | Correlations "string list option" string
  | Scatter_pairs "(string \<times> string) list"
  | Outliers "string list" 'f
  | Missing 'f
  | Plot_hist string int
  | Plot_xy string string
  | Time_trend string string

fun execute :: "'f env \<Rightarrow> 'f state \<Rightarrow> 'f operation \<Rightarrow> 'f state \<times> 'f outcome" where
  "execute env st (Load_data path) = load_data env st path"
| "execute env st (Set_schema s) = set_schema st s"
| "execute env st Get_schema = get_schema st"
| "execute env st (Summary numeric_only) = summary env st numeric_only"
| "execute env st (Head n) = head env st n"
| "execute env st (Top_categories columns top_n) = top_categories env st columns top_n"
| "execute env st (Correlations columns method) = correlations env st columns method"
| "execute env st (Scatter_pairs pairs) = scatter_pairs env st pairs"
| "execute env st (Outliers columns z) = outliers env st columns z"
| "execute env st (Missing threshold) = missing env st threshold"
| "execute env st (Plot_hist column nbins) = plot_hist env st column nbins"
| "execute env st (Plot_xy x y) = plot_xy env st x y"
| "execute env st (Time_trend column freq) = time_trend env st column freq"

text \<open>The functions that start with \<^verbatim>\<open>df = STATE["df"]\<close> and the test \<^verbatim>\<open>df is None\<close>.\<close>

fun reads_df :: "'f operation \<Rightarrow> bool" where
  "reads_df (Load_data _) = False"
| "reads_df (Set_schema _) = False"
| "reads_df Get_schema = False"
| "reads_df _ = True"

section \<open>The server's wrappers\<close>

text \<open>
  \<^verbatim>\<open>server.py\<close> exposes each function through a plain wrapper. An argument of a call is
  \<open>None\<close> when the caller did not supply it and \<open>Some v\<close> when it did. A parameter
  with a default takes the default; a parameter without one is required, and a call that
  leaves it out is rejected before the body runs (Python raises TypeError).
  \<^verbatim>\<open>def tool_load_data(path)\<close>, \<^verbatim>\<open>def tool_summary(numeric_only=True)\<close>,
  \<^verbatim>\<open>def tool_head(n=5)\<close>.
\<close>

definition missing_argument :: "string \<Rightarrow> string \<Rightarrow> exn" where
  "missing_argument f p =
     \<lparr>exn_class = ''TypeError'',
      exn_msg = f @ ''() missing 1 required positional argument: '' @ CHR 0x27 # p @ [CHR 0x27]\<rparr>"

definition tool_load_data ::
  "'f env \<Rightarrow> 'f state \<Rightarrow> string option option \<Rightarrow> 'f state \<times> 'f outcome" where
  "tool_load_data env st path_arg =
     (case path_arg of
        None \<Rightarrow> (st, Inl (missing_argument ''tool_load_data'' ''path''))
      | Some path \<Rightarrow> load_data env st path)"

definition tool_summary :: "'f env \<Rightarrow> 'f state \<Rightarrow> bool option \<Rightarrow> 'f state \<times> 'f outcome" where
  "tool_summary env st numeric_only_arg =
     summary env st (case numeric_only_arg of None \<Rightarrow> True | Some b \<Rightarrow> b)"

definition tool_head :: "'f env \<Rightarrow> 'f state \<Rightarrow> int option \<Rightarrow> 'f state \<times> 'f outcome" where
  "tool_head env st n_arg = head env st (case n_arg of None \<Rightarrow> 5 | Some n \<Rightarrow> n)"

section \<open>Properties of results\<close>

text \<open>
  The discriminated union of the result contract: a result has a boolean under
  \<^verbatim>\<open>"ok"\<close>; when it is true there is no \<^verbatim>\<open>"error"\<close> key, and when it is false the
  result is exactly \<^verbatim>\<open>{"ok": False, "error": <string>}\<close>.
\<close>

definition is_failure :: "'f pydict \<Rightarrow> bool" where
  "is_failure r =
     (map fst r = [''ok'', ''error''] \<and>
      (case map_of r ''error'' of Some (PStr _) \<Rightarrow> True | _ \<Rightarrow> False))"

definition discriminated :: "'f pydict \<Rightarrow> bool" where
  "discriminated r =
     (case map_of r ''ok'' of
        Some (PBool b) \<Rightarrow> (if b then map_of r ''error'' = None else is_failure r)
      | _ \<Rightarrow> False)"


text \<open>
  What one column of \<^verbatim>\<open>top_categories\<close> ends up with, from that column's own lookup,
  count and chart alone.
\<close>

definition top_categories_entry :: "'f env \<Rightarrow> 'f dataframe \<Rightarrow> int \<Rightarrow> string \<Rightarrow> 'f pyval" where
  "top_categories_entry env d top_n c =
     (case getitem d c of
        Inl e \<Rightarrow> PStr (''error:'' @ exn_msg e)
      | Inr s \<Rightarrow>
          (case value_counts_head env s top_n of
             Inl e \<Rightarrow> PStr (''error:'' @ exn_msg e)
           | Inr counts \<Rightarrow>
               (case bar_show env (map fst counts) (map snd counts) top_n c of
                  Some e \<Rightarrow> PStr (''error:'' @ exn_msg e)
                | None \<Rightarrow> PDict counts)))"

section \<open>A sample table and sample libraries\<close>

text \<open>
  Concrete inputs for evaluating the functions: a table of three rows, a library in which
  only \<^verbatim>\<open>good.csv\<close> can be read, \<^verbatim>\<open>corr\<close> rejects an unknown method and
  \<^verbatim>\<open>to_period\<close> an unknown frequency as pandas does, and nothing else raises; and the
  same library with every chart failing to render.
\<close>

definition sample_df :: "real dataframe" where
  "sample_df =
     \<lparr>df_len = 3,
      df_columns = [(''year'', Int64 [2001, 2000, 2001]),
                    (''when'', Datetime64 [Some 50, None, Some 30]),
                    (''city'', Other [PStr ''Oslo'', PStr ''Rome'', PStr ''Oslo''])]\<rparr>"

definition loaded :: "real state" where
  "loaded = \<lparr>df = Some sample_df, name = Some ''good.csv'', schema = None\<rparr>"

definition no_such_file :: "string \<Rightarrow> exn" where
  "no_such_file p =
     \<lparr>exn_class = ''FileNotFoundError'',
      exn_msg = ''[Errno 2] No such file or directory: '' @ CHR 0x27 # p @ [CHR 0x27]\<rparr>"

definition bad_method :: exn where
  "bad_method = \<lparr>exn_class = ''ValueError'', exn_msg = ''method must be either pearson, spearman, kendall, or a callable''\<rparr>"

definition invalid_frequency :: "string \<Rightarrow> exn" where
  "invalid_frequency f = \<lparr>exn_class = ''ValueError'', exn_msg = ''Invalid frequency: '' @ f\<rparr>"

definition no_renderer :: exn where
  "no_renderer = \<lparr>exn_class = ''ValueError'', exn_msg = ''no renderer''\<rparr>"

definition sample_env :: "real env" where
  "sample_env =
     \<lparr>path_exists = (\<lambda>p. p = ''good.csv''),
      path_name = (\<lambda>p. p),
      read_csv = (\<lambda>p. if p = ''good.csv'' then Inr sample_df else Inl (no_such_file p)),
      describe = (\<lambda>d b. Inr (PDict [])),
      head_records = (\<lambda>d n. Inr (PList [])),
      value_counts_head = (\<lambda>s n. Inr []),
      bar_show = (\<lambda>xs ys n c. None),
      corr = (\<lambda>d cols m. if m \<in> set [''pearson'', ''kendall'', ''spearman''] then Inr (PDict [])
                           else Inl bad_method),
      scatter_show = (\<lambda>d x y. None),
      zscore_outliers = (\<lambda>d cols z. Inr []),
      missing_fractions = (\<lambda>d t. Inr (PDict [])),
      histogram_show = (\<lambda>d c n. None),
      to_period = (\<lambda>ts f. if f \<in> set [''D'', ''M''] then Inr (f, map (\<lambda>t. t div 10) ts)
                         else if f = ''Y'' then Inr (''Y-DEC'', map (\<lambda>t. t div 100) ts)
                         else Inl (invalid_frequency f)),
      to_numeric_int = (\<lambda>vs. Inr []),
      line_show = (\<lambda>xs ys c t. None)\<rparr>"

definition headless_env :: "real env" where
  "headless_env =
     sample_env\<lparr>bar_show := (\<lambda>xs ys n c. Some no_renderer),
                scatter_show := (\<lambda>d x y. Some no_renderer),
                histogram_show := (\<lambda>d c n. Some no_renderer),
                line_show := (\<lambda>xs ys c t. Some no_renderer)\<rparr>"

section \<open>Helper lemmas\<close>

lemmas op_defs = load_data_def load_from_def set_schema_def get_schema_def summary_def head_def
  top_categories_def correlations_def scatter_pairs_def outliers_def missing_def plot_hist_def
  plot_xy_def time_trend_def

lemma discriminated_failure: "discriminated (failure msg)"
  by (simp add: discriminated_def failure_def is_failure_def)

lemma discriminated_ok:
  "map_of r ''error'' = None \<Longrightarrow> discriminated ((''ok'', PBool True) # r)"
  by (simp add: discriminated_def)

lemma year_trend_discriminated: "year_trend env c xs = Inr r \<Longrightarrow> discriminated r"
  by (auto simp: year_trend_def Let_def discriminated_ok split: option.splits)

lemma time_trend_try_discriminated: "time_trend_try env s c f = Inr r \<Longrightarrow> discriminated r"
  by (auto simp: time_trend_try_def Let_def discriminated_ok dest: year_trend_discriminated
      split: series.splits sum.splits option.splits)

lemma distinct_map_sort_key: "distinct (map f (sort_key g xs)) = distinct (map f xs)"
proof -
  have "mset (map f (sort_key g xs)) = mset (map f xs)" by simp
  then show ?thesis by (rule mset_eq_imp_distinct_iff)
qed

lemma top_categories_item_entry:
  "top_categories_item env d top_n c out = AList.update c (top_categories_entry env d top_n c) out"
  by (simp add: top_categories_item_def top_categories_entry_def Let_def
      split: sum.split option.split)

lemma top_categories_loop_lookup:
  "map_of (top_categories_loop env d top_n cs out) c =
     (if c \<in> set cs then Some (top_categories_entry env d top_n c) else map_of out c)"
  by (induction cs arbitrary: out) (auto simp: top_categories_item_entry update_conv')

lemma scatter_pairs_loop_map:
  "scatter_pairs_loop env d ps rendered = rendered @ map (scatter_pairs_item env d) ps"
  by (induction ps arbitrary: rendered) auto

lemma sort_index_value_counts:
  "sort_index (value_counts xs) = map (\<lambda>k. (k, count_list xs k)) (sort (remdups xs))"
  unfolding sort_index_def value_counts_def
proof (rule map_sorted_distinct_set_unique [where f = fst])
  let ?c = "\<lambda>k. (k, count_list xs k)"
  let ?l = "sort_key fst (sort_key (\<lambda>kv. - int (snd kv)) (map ?c (rev (remdups (rev xs)))))"
  let ?r = "map ?c (sort (remdups xs))"
  show "inj_on fst (set ?l \<union> set ?r)" by (auto simp: inj_on_def)
  show "sorted (map fst ?l)" by simp
  show "distinct (map fst ?l)"
    unfolding distinct_map_sort_key by (simp add: comp_def)
  show "sorted (map fst ?r)" by (simp add: comp_def)
  show "distinct (map fst ?r)" by (simp add: comp_def)
  show "set ?l = set ?r" by simp
qed


lemma dropna_comprehension: "dropna ts = [t. Some t \<leftarrow> ts]"
  by (induction ts rule: dropna.induct) auto

lemma remdups_drop_repeated: "c \<in> set bs \<Longrightarrow> remdups (as @ c # bs) = remdups (as @ bs)"
  by (induction as) auto

lemma top_categories_loop_order:
  "distinct (map fst out) \<Longrightarrow>
   map fst (top_categories_loop env d top_n cs out) = rev (remdups (rev (map fst out @ cs)))"
proof (induction cs arbitrary: out)
  case Nil
  then show ?case by (simp add: distinct_remdups_id)
next
  case (Cons c cs)
  let ?out = "AList.update c (top_categories_entry env d top_n c) out"
  have d: "distinct (map fst ?out)" using Cons.prems by (simp add: distinct_update)
  have "map fst (top_categories_loop env d top_n (c # cs) out) =
        rev (remdups (rev (map fst ?out @ cs)))"
    using Cons.IH [OF d] by (simp add: top_categories_item_entry)
  also have "\<dots> = rev (remdups (rev (map fst out @ c # cs)))"
    by (auto simp: update_keys remdups_drop_repeated)
  finally show ?case .
qed

section \<open>The dataset precondition\<close>

text \<open>
  C1. Each of the ten functions that read the table (summary, head, top_categories,
  correlations, scatter_pairs, outliers, missing, plot_hist, plot_xy, time_trend), called
  while \<^verbatim>\<open>STATE["df"]\<close> is \<^verbatim>\<open>None\<close>, returns
  \<^verbatim>\<open>{"ok": False, "error": "no_dataset_loaded"}\<close> and leaves the state alone, whatever its
  arguments. The result is the same for every environment: no library call decides it.
\<close>

theorem no_dataset_loaded_uniform:
  "df st = None \<Longrightarrow> reads_df op \<Longrightarrow> execute env st op = (st, Inr (failure ''no_dataset_loaded''))"
  by (cases op) (simp_all add: op_defs)

text \<open>At the initial state, with every chart failing, for \<^verbatim>\<open>time_trend("year", "M")\<close>.\<close>

theorem no_dataset_loaded_uniform_witness:
  "df (STATE :: real state) = None \<and> reads_df (Time_trend ''year'' ''M'' :: real operation) \<and>
   execute headless_env STATE (Time_trend ''year'' ''M'') = (STATE, Inr (failure ''no_dataset_loaded''))"
  using no_dataset_loaded_uniform [of "STATE :: real state" "Time_trend ''year'' ''M''" headless_env]
  by (simp add: STATE_def)

section \<open>Loading\<close>

text \<open>
  C2. \<^verbatim>\<open>load_data\<close> is atomic. When \<^verbatim>\<open>pd.read_csv\<close> raises on the path, the call returns
  \<^verbatim>\<open>ok: False\<close> with \<^verbatim>\<open>"load_failed:<class>:<message>"\<close> and the state is the state before
  the call, so that \<^verbatim>\<open>head\<close> afterwards gives what it gave before. When \<^verbatim>\<open>pd.read_csv\<close>
  returns a table, the table and the name are replaced together. With no path, a default
  file that cannot be read leaves the state unchanged as well.
\<close>

theorem load_data_atomic:
  "(read_csv env p = Inl e \<longrightarrow>
      load_data env st (Some p) =
        (st, Inr (failure (''load_failed:'' @ exn_class e @ '':'' @ exn_msg e))) \<and>
      head env (fst (load_data env st (Some p))) n = head env st n) \<and>
   (read_csv env p = Inr d \<longrightarrow>
      fst (load_data env st (Some p)) = st\<lparr>df := Some d, name := Some (path_name env p)\<rparr>) \<and>
   (read_csv env ''dataset.csv'' = Inl e \<longrightarrow> fst (load_data env st None) = st)"
  by (simp add: load_data_def load_from_def)

text \<open>Load good, load bad: the good table stays, and \<^verbatim>\<open>head\<close> still reads it.\<close>

theorem load_data_atomic_witness:
  "read_csv sample_env ''bad.csv'' = Inl (no_such_file ''bad.csv'') \<and>
   load_data sample_env loaded (Some ''bad.csv'') =
     (loaded, Inr (failure (''load_failed:FileNotFoundError:'' @ exn_msg (no_such_file ''bad.csv'')))) \<and>
   head sample_env (fst (load_data sample_env loaded (Some ''bad.csv''))) 5 = head sample_env loaded 5 \<and>
   read_csv sample_env ''good.csv'' = Inr sample_df \<and>
   fst (load_data sample_env STATE (Some ''good.csv'')) = loaded"
  using load_data_atomic [of sample_env "''bad.csv''" "no_such_file ''bad.csv''" loaded 5 sample_df]
    load_data_atomic [of sample_env "''good.csv''" "no_such_file ''bad.csv''" STATE 5 sample_df]
  by (simp add: sample_env_def no_such_file_def STATE_def loaded_def)

text \<open>
  C8. At the server, \<^verbatim>\<open>tool_load_data(path)\<close> has no default for \<^verbatim>\<open>path\<close>: a call that
  leaves the argument out is rejected and never reaches \<^verbatim>\<open>load_data\<close>, while the sibling
  wrappers \<^verbatim>\<open>tool_summary\<close> and \<^verbatim>\<open>tool_head\<close> pass their defaults on. Only an explicit
  \<^verbatim>\<open>None\<close> reaches the fallback of \<^verbatim>\<open>load_data\<close>, which reads \<^verbatim>\<open>dataset.csv\<close> when it
  exists and returns \<^verbatim>\<open>"no_path_provided_and_dataset.csv_not_found"\<close> when it does not.
\<close>

theorem tool_load_data_requires_path:
  "tool_load_data env st None = (st, Inl (missing_argument ''tool_load_data'' ''path'')) \<and>
   tool_summary env st None = summary env st True \<and>
   tool_head env st None = head env st 5 \<and>
   tool_load_data env st (Some None) = load_data env st None \<and>
   load_data env st None =
     (if path_exists env ''dataset.csv'' then load_data env st (Some ''dataset.csv'')
      else (st, Inr (failure ''no_path_provided_and_dataset.csv_not_found'')))"
  by (simp add: tool_load_data_def tool_summary_def tool_head_def load_data_def)

section \<open>Errors\<close>

text \<open>
  C3. The indexing \<^verbatim>\<open>s = df[column]\<close> of \<^verbatim>\<open>time_trend\<close> stands before its \<^verbatim>\<open>try\<close>: with
  a table loaded and a column the table does not have, the KeyError leaves the function
  instead of becoming a result with \<^verbatim>\<open>ok: False\<close>.
\<close>

theorem time_trend_raises:
  "time_trend sample_env loaded ''price'' ''M'' = (loaded, Inl (KeyError ''price''))"
  by (simp add: time_trend_def loaded_def sample_df_def getitem_def)

text \<open>
  C4. The handler of \<^verbatim>\<open>correlations\<close> formats \<^verbatim>\<open>f"correlation_failed:{e}"\<close>: the error
  string carries the message of the ValueError that \<^verbatim>\<open>corr\<close> raised and not its class.
\<close>

theorem correlations_error_without_class:
  "correlations sample_env loaded None ''bogus'' =
     (loaded, Inr (failure (''correlation_failed:'' @ exn_msg bad_method))) \<and>
   corr sample_env sample_df None ''bogus'' = Inl bad_method \<and>
   exn_class bad_method = ''ValueError'' \<and>
   ''correlation_failed:'' @ exn_msg bad_method \<noteq>
     ''correlation_failed:'' @ exn_class bad_method @ '':'' @ exn_msg bad_method"
  by (simp add: correlations_def loaded_def sample_env_def bad_method_def)

section \<open>The shape of results\<close>

text \<open>
  C5, as the claim states it, fails: before any schema is set, \<^verbatim>\<open>get_schema\<close> returns
  \<^verbatim>\<open>{"ok": False, "schema": None}\<close>, a result with \<^verbatim>\<open>ok: False\<close> and no \<^verbatim>\<open>error\<close> key.
\<close>

theorem get_schema_counterexample:
  "snd (get_schema (STATE :: real state)) = Inr [(''ok'', PBool False), (''schema'', PNone)] \<and>
   \<not> discriminated [(''ok'', PBool False), (''schema'', PNone :: real pyval)]"
  by (simp add: get_schema_def STATE_def discriminated_def is_failure_def)

text \<open>
  C5, amended. Every result that an operation returns has a boolean \<^verbatim>\<open>ok\<close>, no \<^verbatim>\<open>error\<close>
  key when \<^verbatim>\<open>ok\<close> is true, and is exactly \<^verbatim>\<open>{"ok": False, "error": <string>}\<close> when
  \<^verbatim>\<open>ok\<close> is false; the one exception is \<^verbatim>\<open>get_schema\<close> while no schema is set, which
  returns \<^verbatim>\<open>{"ok": False, "schema": None}\<close>.
\<close>

theorem results_discriminated:
  "((op = Get_schema \<longrightarrow> schema st \<noteq> None) \<longrightarrow> execute env st op = (st', Inr r) \<longrightarrow>
      discriminated r) \<and>
   (schema st = None \<longrightarrow> get_schema st = (st, Inr [(''ok'', PBool False), (''schema'', PNone)]))"
proof -
  have "discriminated r"
    if "op = Get_schema \<longrightarrow> schema st \<noteq> None" and "execute env st op = (st', Inr r)"
    using that
    by (cases op)
       (auto simp: op_defs discriminated_failure Let_def discriminated_ok
          dest: time_trend_try_discriminated
          split: option.splits sum.splits if_splits)
  then show ?thesis by (simp add: get_schema_def)
qed

text \<open>A summary of the sample table, and \<^verbatim>\<open>get_schema\<close> at the initial state.\<close>

theorem results_discriminated_witness:
  "execute sample_env loaded (Summary True) =
     (loaded, Inr [(''ok'', PBool True), (''rows'', PInt 3), (''cols'', PInt 3),
                   (''describe'', PDict [])]) \<and>
   discriminated [(''ok'', PBool True), (''rows'', PInt 3), (''cols'', PInt 3),
                  (''describe'', PDict [] :: real pyval)] \<and>
   schema (STATE :: real state) = None \<and>
   get_schema (STATE :: real state) = (STATE, Inr [(''ok'', PBool False), (''schema'', PNone)])"
  using results_discriminated [of "Summary True" loaded sample_env loaded
      "[(''ok'', PBool True), (''rows'', PInt 3), (''cols'', PInt 3), (''describe'', PDict [])]"]
    results_discriminated [of "Summary True" "STATE :: real state" sample_env loaded "[]"]
  by (simp add: summary_def loaded_def sample_env_def sample_df_def STATE_def)

section \<open>Time trends\<close>




section \<open>Rendering\<close>

text \<open>
  C9, as the claim states it, fails for the rendering operations: with every chart failing
  to render, \<^verbatim>\<open>plot_hist\<close> returns \<^verbatim>\<open>ok: False\<close>, and so does \<^verbatim>\<open>time_trend\<close>, whose
  counts had been computed by then.
\<close>

theorem rendering_counterexample:
  "plot_hist headless_env loaded ''year'' 30 =
     (loaded, Inr [(''ok'', PBool False), (''error'', PStr ''plot_hist_failed:no renderer'')]) \<and>
   time_trend headless_env loaded ''year'' ''M'' =
     (loaded, Inr [(''ok'', PBool False), (''error'', PStr ''time_trend_failed:no renderer'')])"
  by (simp add: plot_hist_def time_trend_def time_trend_try_def year_trend_def Let_def
      headless_env_def sample_env_def loaded_def sample_df_def getitem_def failure_def no_renderer_def)

text \<open>
  C9, amended. With a table loaded, the itemized operations \<^verbatim>\<open>top_categories\<close> and
  \<^verbatim>\<open>scatter_pairs\<close> always return \<^verbatim>\<open>ok: True\<close>. The payload of \<^verbatim>\<open>top_categories\<close> has
  one entry for each requested column, in the order of first request, decided by that
  column alone: the counts when the column was found, counted and its chart drawn, and
  \<^verbatim>\<open>"error:<message>"\<close> when the lookup, the count or the chart raised. The payload of
  \<^verbatim>\<open>scatter_pairs\<close> has one entry for each pair, in order: \<^verbatim>\<open>"<x>_vs_<y>"\<close> when the
  chart of that pair was drawn and \<^verbatim>\<open>"<x>_vs_<y>_error:<message>"\<close> when it raised. For
  \<^verbatim>\<open>plot_hist\<close> and \<^verbatim>\<open>plot_xy\<close> the result is \<^verbatim>\<open>{"ok": True}\<close> when the chart was drawn
  and \<^verbatim>\<open>{"ok": False, "error": "<operation>_failed:<message>"}\<close> when it raised; and for
  \<^verbatim>\<open>time_trend\<close>, on a column of any dtype, a chart of the computed trend that raises is
  returned as \<^verbatim>\<open>{"ok": False, "error": "time_trend_failed:<message>"}\<close>.
\<close>

theorem rendering_failures:
  assumes "df st = Some d"
  shows
    "(\<exists>out. top_categories env st cols top_n =
              (st, Inr [(''ok'', PBool True),
                        (''top_categories'', PDict (map (\<lambda>kv. (PStr (fst kv), snd kv)) out))]) \<and>
            map fst out = rev (remdups (rev cols)) \<and>
            (\<forall>c \<in> set cols. map_of out c = Some
               (case map_of (df_columns d) c of
                  None \<Rightarrow> PStr (''error:'' @ exn_msg (KeyError c))
                | Some s \<Rightarrow>
                    (case value_counts_head env s top_n of
                       Inl e \<Rightarrow> PStr (''error:'' @ exn_msg e)
                     | Inr counts \<Rightarrow>
                         (case bar_show env (map fst counts) (map snd counts) top_n c of
                            Some e \<Rightarrow> PStr (''error:'' @ exn_msg e)
                          | None \<Rightarrow> PDict counts))))) \<and>
     scatter_pairs env st pairs =
       (st, Inr [(''ok'', PBool True),
                 (''pairs_rendered'',
                  PList (map (\<lambda>p. PStr (case scatter_show env d (fst p) (snd p) of
                                           None \<Rightarrow> fst p @ ''_vs_'' @ snd p
                                         | Some e \<Rightarrow> fst p @ ''_vs_'' @ snd p @ ''_error:'' @ exn_msg e))
                          pairs))]) \<and>
     plot_hist env st column nbins =
       (st, Inr (case histogram_show env d column nbins of
                   None \<Rightarrow> [(''ok'', PBool True)]
                 | Some e \<Rightarrow> [(''ok'', PBool False),
                              (''error'', PStr (''plot_hist_failed:'' @ exn_msg e))])) \<and>
     plot_xy env st x y =
       (st, Inr (case scatter_show env d x y of
                   None \<Rightarrow> [(''ok'', PBool True)]
                 | Some e \<Rightarrow> [(''ok'', PBool False),
                              (''error'', PStr (''plot_xy_failed:'' @ exn_msg e))])) \<and>
     (\<forall>ts f ps e.
        map_of (df_columns d) column = Some (Datetime64 ts) \<longrightarrow>
        to_period env [t. Some t \<leftarrow> ts] freq = Inr (f, ps) \<longrightarrow>
        line_show env (map (\<lambda>k. PPeriod k f) (sort (remdups ps)))
          (map (\<lambda>k. PInt (int (count_list ps k))) (sort (remdups ps))) column
          (''Count by '' @ freq @ '': '' @ column) = Some e \<longrightarrow>
        time_trend env st column freq =
          (st, Inr [(''ok'', PBool False), (''error'', PStr (''time_trend_failed:'' @ exn_msg e))])) \<and>
     (\<forall>xs e.
        map_of (df_columns d) column = Some (Int64 xs) \<longrightarrow>
        line_show env (map PInt (sort (remdups xs)))
          (map (\<lambda>k. PInt (int (count_list xs k))) (sort (remdups xs))) column
          (''Count by Year: '' @ column) = Some e \<longrightarrow>
        time_trend env st column freq =
          (st, Inr [(''ok'', PBool False), (''error'', PStr (''time_trend_failed:'' @ exn_msg e))])) \<and>
     (\<forall>vs ser e.
        map_of (df_columns d) column = Some (Other vs) \<longrightarrow>
        to_numeric_int env vs = Inr ser \<longrightarrow>
        line_show env (map PInt (sort (remdups ser)))
          (map (\<lambda>k. PInt (int (count_list ser k))) (sort (remdups ser))) column
          (''Count by Year: '' @ column) = Some e \<longrightarrow>
        time_trend env st column freq =
          (st, Inr [(''ok'', PBool False), (''error'', PStr (''time_trend_failed:'' @ exn_msg e))]))"
proof -
  let ?out = "top_categories_loop env d top_n cols []"
  have entry: "top_categories_entry env d top_n c =
      (case map_of (df_columns d) c of
         None \<Rightarrow> PStr (''error:'' @ exn_msg (KeyError c))
       | Some s \<Rightarrow>
           (case value_counts_head env s top_n of
              Inl e \<Rightarrow> PStr (''error:'' @ exn_msg e)
            | Inr counts \<Rightarrow>
                (case bar_show env (map fst counts) (map snd counts) top_n c of
                   Some e \<Rightarrow> PStr (''error:'' @ exn_msg e)
                 | None \<Rightarrow> PDict counts)))" for c
    by (simp add: top_categories_entry_def getitem_def split: option.split)
  have "top_categories env st cols top_n =
          (st, Inr [(''ok'', PBool True),
                    (''top_categories'', PDict (map (\<lambda>kv. (PStr (fst kv), snd kv)) ?out))])"
    using assms by (simp add: top_categories_def as_pyval_def case_prod_beta)
  moreover have "map fst ?out = rev (remdups (rev cols))"
    using top_categories_loop_order [of "[]" env d top_n cols] by simp
  moreover have "\<forall>c \<in> set cols. map_of ?out c = Some
               (case map_of (df_columns d) c of
                  None \<Rightarrow> PStr (''error:'' @ exn_msg (KeyError c))
                | Some s \<Rightarrow>
                    (case value_counts_head env s top_n of
                       Inl e \<Rightarrow> PStr (''error:'' @ exn_msg e)
                     | Inr counts \<Rightarrow>
                         (case bar_show env (map fst counts) (map snd counts) top_n c of
                            Some e \<Rightarrow> PStr (''error:'' @ exn_msg e)
                          | None \<Rightarrow> PDict counts)))"
    by (simp add: top_categories_loop_lookup entry)
  ultimately have a: "\<exists>out. top_categories env st cols top_n =
              (st, Inr [(''ok'', PBool True),
                        (''top_categories'', PDict (map (\<lambda>kv. (PStr (fst kv), snd kv)) out))]) \<and>
            map fst out = rev (remdups (rev cols)) \<and>
            (\<forall>c \<in> set cols. map_of out c = Some
               (case map_of (df_columns d) c of
                  None \<Rightarrow> PStr (''error:'' @ exn_msg (KeyError c))
                | Some s \<Rightarrow>
                    (case value_counts_head env s top_n of
                       Inl e \<Rightarrow> PStr (''error:'' @ exn_msg e)
                     | Inr counts \<Rightarrow>
                         (case bar_show env (map fst counts) (map snd counts) top_n c of
                            Some e \<Rightarrow> PStr (''error:'' @ exn_msg e)
                          | None \<Rightarrow> PDict counts))))"
    by blast
  have b: "scatter_pairs env st pairs =
       (st, Inr [(''ok'', PBool True),
                 (''pairs_rendered'',
                  PList (map (\<lambda>p. PStr (case scatter_show env d (fst p) (snd p) of
                                           None \<Rightarrow> fst p @ ''_vs_'' @ snd p
                                         | Some e \<Rightarrow> fst p @ ''_vs_'' @ snd p @ ''_error:'' @ exn_msg e))
                          pairs))])"
    using assms
    by (simp add: scatter_pairs_def scatter_pairs_loop_map scatter_pairs_item_def
        case_prod_beta comp_def)
  have c: "plot_hist env st column nbins =
       (st, Inr (case histogram_show env d column nbins of
                   None \<Rightarrow> [(''ok'', PBool True)]
                 | Some e \<Rightarrow> [(''ok'', PBool False),
                              (''error'', PStr (''plot_hist_failed:'' @ exn_msg e))]))"
    using assms by (simp add: plot_hist_def failure_def split: option.split)
  have d: "plot_xy env st x y =
       (st, Inr (case scatter_show env d x y of
                   None \<Rightarrow> [(''ok'', PBool True)]
                 | Some e \<Rightarrow> [(''ok'', PBool False),
                              (''error'', PStr (''plot_xy_failed:'' @ exn_msg e))]))"
    using assms by (simp add: plot_xy_def failure_def split: option.split)
  have keys: "map fst (to_dict key (sort_index (value_counts ys))) = map key (sort (remdups ys))"
    and vals: "map snd (to_dict key (sort_index (value_counts ys))) =
               map (\<lambda>k. PInt (int (count_list ys k))) (sort (remdups ys))"
    for key :: "int \<Rightarrow> 'a pyval" and ys
    by (simp_all add: to_dict_def sort_index_value_counts comp_def)
  have e: "\<forall>ts f ps e.
        map_of (df_columns d) column = Some (Datetime64 ts) \<longrightarrow>
        to_period env [t. Some t \<leftarrow> ts] freq = Inr (f, ps) \<longrightarrow>
        line_show env (map (\<lambda>k. PPeriod k f) (sort (remdups ps)))
          (map (\<lambda>k. PInt (int (count_list ps k))) (sort (remdups ps))) column
          (''Count by '' @ freq @ '': '' @ column) = Some e \<longrightarrow>
        time_trend env st column freq =
          (st, Inr [(''ok'', PBool False), (''error'', PStr (''time_trend_failed:'' @ exn_msg e))])"
    using assms
    by (simp add: time_trend_def getitem_def time_trend_try_def Let_def keys vals failure_def
        dropna_comprehension)
  have f: "\<forall>xs e.
        map_of (df_columns d) column = Some (Int64 xs) \<longrightarrow>
        line_show env (map PInt (sort (remdups xs)))
          (map (\<lambda>k. PInt (int (count_list xs k))) (sort (remdups xs))) column
          (''Count by Year: '' @ column) = Some e \<longrightarrow>
        time_trend env st column freq =
          (st, Inr [(''ok'', PBool False), (''error'', PStr (''time_trend_failed:'' @ exn_msg e))])"
    using assms
    by (simp add: time_trend_def getitem_def time_trend_try_def year_trend_def Let_def keys vals
        failure_def)
  have g: "\<forall>vs ser e.
        map_of (df_columns d) column = Some (Other vs) \<longrightarrow>
        to_numeric_int env vs = Inr ser \<longrightarrow>
        line_show env (map PInt (sort (remdups ser)))
          (map (\<lambda>k. PInt (int (count_list ser k))) (sort (remdups ser))) column
          (''Count by Year: '' @ column) = Some e \<longrightarrow>
        time_trend env st column freq =
          (st, Inr [(''ok'', PBool False), (''error'', PStr (''time_trend_failed:'' @ exn_msg e))])"
    using assms
    by (simp add: time_trend_def getitem_def time_trend_try_def year_trend_def Let_def keys vals
        failure_def)
  from a b c d e f g show ?thesis by blast
qed

text \<open>
  With every chart failing: a column whose chart fails and a column the table does not
  have, one pair, a histogram, and the trend of a datetime column.
\<close>

theorem rendering_failures_witness:
  "df loaded = Some sample_df \<and>
   top_categories headless_env loaded [''city'', ''price''] 10 =
     (loaded, Inr [(''ok'', PBool True),
                   (''top_categories'', PDict [(PStr ''city'', PStr ''error:no renderer''),
                                               (PStr ''price'', PStr (''error:'' @ exn_msg (KeyError ''price'')))])]) \<and>
   scatter_pairs headless_env loaded [(''year'', ''when'')] =
     (loaded, Inr [(''ok'', PBool True),
                   (''pairs_rendered'', PList [PStr ''year_vs_when_error:no renderer''])]) \<and>
   plot_hist headless_env loaded ''year'' 30 = (loaded, Inr (failure ''plot_hist_failed:no renderer'')) \<and>
   plot_xy headless_env loaded ''year'' ''when'' = (loaded, Inr (failure ''plot_xy_failed:no renderer'')) \<and>
   time_trend headless_env loaded ''when'' ''M'' =
     (loaded, Inr (failure ''time_trend_failed:no renderer''))"
proof -
  have h: "df loaded = Some sample_df" by (simp add: loaded_def)
  show ?thesis
    using rendering_failures [OF h, of headless_env "[''city'', ''price'']" 10
        "[(''year'', ''when'')]" "''year''" 30 "''year''" "''when''" "''M''"] h
    by (simp add: top_categories_def top_categories_item_def as_pyval_def
        scatter_pairs_def scatter_pairs_item_def plot_hist_def plot_xy_def
        time_trend_def time_trend_try_def Let_def
        headless_env_def sample_env_def sample_df_def getitem_def no_renderer_def failure_def)
qed

section \<open>The frame of each operation\<close>

text \<open>
  C10. \<^verbatim>\<open>set_schema\<close> writes the schema slot and leaves the table and the name as they
  were; \<^verbatim>\<open>load_data\<close>, successful or not, leaves the schema as it was; every other
  function returns the state it was given.
\<close>

theorem state_frame:
  "df (fst (set_schema st s)) = df st \<and> name (fst (set_schema st s)) = name st \<and>
   schema (fst (set_schema st s)) = Some s \<and>
   schema (fst (load_data env st path)) = schema st \<and>
   fst (get_schema st) = st \<and>
   fst (summary env st numeric_only) = st \<and>
   fst (head env st n) = st \<and>
   fst (top_categories env st columns top_n) = st \<and>
   fst (correlations env st opt_columns method) = st \<and>
   fst (scatter_pairs env st pairs) = st \<and>
   fst (outliers env st columns z) = st \<and>
   fst (missing env st threshold) = st \<and>
   fst (plot_hist env st column nbins) = st \<and>
   fst (plot_xy env st x y) = st \<and>
   fst (time_trend env st column freq) = st"
  by (simp add: op_defs split: option.split sum.split)

end
